theory Spec2Isabelle
  imports Main "HOL-Library.Sublist"
begin

section \<open>Dates\<close>

text \<open>
  A JavaScript \<open>Date\<close> is read in local civil time: the full year, the month index
  (0 = January, 11 = December), the day of the month and the milliseconds elapsed since
  local midnight. The model has no daylight-saving transitions, so two dates compare as their
  time stamps do exactly when their fields compare lexicographically.
\<close>

record Date =
  fullYear :: int
  monthIndex :: int
  dayOfMonth :: int
  msOfDay :: int

definition isLeapYear :: "int \<Rightarrow> bool" where
  "isLeapYear y = (y mod 4 = 0 \<and> (y mod 100 \<noteq> 0 \<or> y mod 400 = 0))"

definition daysInMonth :: "int \<Rightarrow> int \<Rightarrow> int" where
  "daysInMonth y m =
     (if m = 1 then (if isLeapYear y then 29 else 28)
      else if m = 3 \<or> m = 5 \<or> m = 8 \<or> m = 10 then 30
      else 31)"

text \<open>Days of the month counted from year 0: month \<open>a\<close> is month \<open>a mod 12\<close> of year \<open>a div 12\<close>.\<close>

definition daysInAbsMonth :: "int \<Rightarrow> int" where
  "daysInAbsMonth a = daysInMonth (a div 12) (a mod 12)"

definition valid_date :: "Date \<Rightarrow> bool" where
  "valid_date d =
     (0 \<le> monthIndex d \<and> monthIndex d \<le> 11 \<and>
      1 \<le> dayOfMonth d \<and> dayOfMonth d \<le> daysInMonth (fullYear d) (monthIndex d) \<and>
      0 \<le> msOfDay d \<and> msOfDay d \<le> 86399999)"

text \<open>
  The overflow rule of the \<open>Date\<close> setters and constructor (ECMAScript \<open>MakeDay\<close>): a day
  below 1 borrows from the months before, a day beyond the month's length carries into the
  months after.
\<close>

function rollDays :: "int \<Rightarrow> int \<Rightarrow> int \<times> int" where
  "rollDays a d =
     (if d < 1 then rollDays (a - 1) (d + daysInAbsMonth (a - 1))
      else if daysInAbsMonth a < d then rollDays (a + 1) (d - daysInAbsMonth a)
      else (a, d))"
  by pat_completeness auto
termination
  by (relation "measure (\<lambda>(a, d). nat (if d < 1 then 32 - d else d))")
     (auto simp: daysInAbsMonth_def daysInMonth_def)

declare rollDays.simps [simp del]

definition makeDate :: "int \<Rightarrow> int \<Rightarrow> int \<Rightarrow> int \<Rightarrow> Date" where
  "makeDate y m d t =
     (let (a, d') = rollDays (y * 12 + m) d
      in \<lparr>fullYear = a div 12, monthIndex = a mod 12, dayOfMonth = d', msOfDay = t\<rparr>)"

text \<open>
  \<open>new Date(year, month, day)\<close>: local midnight of that day; a year from 0 to 99 is
  taken as 1900 + year.
\<close>

definition newDate :: "int \<Rightarrow> int \<Rightarrow> int \<Rightarrow> Date" where
  "newDate y m d = makeDate (if 0 \<le> y \<and> y \<le> 99 then 1900 + y else y) m d 0"

definition setDate :: "Date \<Rightarrow> int \<Rightarrow> Date" where
  "setDate x d = makeDate (fullYear x) (monthIndex x) d (msOfDay x)"

definition setMonth :: "Date \<Rightarrow> int \<Rightarrow> Date" where
  "setMonth x m = makeDate (fullYear x) m (dayOfMonth x) (msOfDay x)"

text \<open>The relational operators on two \<open>Date\<close> objects compare their time stamps.\<close>

definition date_less :: "Date \<Rightarrow> Date \<Rightarrow> bool" where
  "date_less x y =
     (fullYear x < fullYear y \<or> (fullYear x = fullYear y \<and>
       (monthIndex x < monthIndex y \<or> (monthIndex x = monthIndex y \<and>
         (dayOfMonth x < dayOfMonth y \<or> (dayOfMonth x = dayOfMonth y \<and>
           msOfDay x < msOfDay y))))))"

definition date_le :: "Date \<Rightarrow> Date \<Rightarrow> bool" where
  "date_le x y = (\<not> date_less y x)"

section \<open>The date-fns functions the component imports\<close>

text \<open>
  Modelled from the spec: the package date-fns is imported by the component and is not part
  of the repository. Each function below follows the spec's words (first day and last day of
  a month, quarter or year; whole-month difference) through the steps the library takes on a
  \<open>Date\<close>: \<open>startOfMonth\<close> sets the day to 1 and the time to 00:00:00.000.
\<close>

definition startOfMonth :: "Date \<Rightarrow> Date" where
  "startOfMonth x = (setDate x 1)\<lparr>msOfDay := 0\<rparr>"

text \<open>
  Modelled from the spec: \<open>endOfMonth\<close> is day 0 of the next month (the last day of this
  one) at 23:59:59.999.
\<close>

definition endOfMonth :: "Date \<Rightarrow> Date" where
  "endOfMonth x = makeDate (fullYear x) (monthIndex x + 1) 0 86399999"

text \<open>
  Modelled from the spec: \<open>addMonths\<close> moves to the month \<open>n\<close> months away and keeps the day
  of the month unless that month is shorter, in which case it stops at its last day; the time
  of day is kept. \<open>subMonths\<close> adds the negated amount.
\<close>

definition addMonths :: "Date \<Rightarrow> int \<Rightarrow> Date" where
  "addMonths x n =
     (if n = 0 then x
      else let e = makeDate (fullYear x) (monthIndex x + n + 1) 0 (msOfDay x)
           in if dayOfMonth e \<le> dayOfMonth x then e
              else makeDate (fullYear e) (monthIndex e) (dayOfMonth x) (msOfDay x))"

definition subMonths :: "Date \<Rightarrow> int \<Rightarrow> Date" where
  "subMonths x n = addMonths x (- n)"

text \<open>Modelled from the spec: first and last moment of the calendar year.\<close>

definition startOfYear :: "Date \<Rightarrow> Date" where
  "startOfYear x = makeDate (fullYear x) 0 1 0"

definition endOfYear :: "Date \<Rightarrow> Date" where
  "endOfYear x = makeDate (fullYear x + 1) 0 0 86399999"

text \<open>
  Modelled from the spec: first and last moment of the calendar quarter (January to March,
  April to June, July to September, October to December).
\<close>

definition startOfQuarter :: "Date \<Rightarrow> Date" where
  "startOfQuarter x = makeDate (fullYear x) (monthIndex x - monthIndex x mod 3) 1 0"

definition endOfQuarter :: "Date \<Rightarrow> Date" where
  "endOfQuarter x =
     makeDate (fullYear x) (monthIndex x - monthIndex x mod 3 + 3) 0 86399999"

text \<open>
  Modelled from the spec: \<open>differenceInMonths later earlier\<close> is the number of whole months
  between the two dates. The library takes the difference of the calendar months, moves the
  later date back by that many months (a date at the end of February is first pushed to day
  30) and takes one off when the moved date has passed the earlier one, except for a single
  month that ends on the last day of its month.
\<close>

definition compareAsc :: "Date \<Rightarrow> Date \<Rightarrow> int" where
  "compareAsc x y = (if date_less x y then - 1 else if date_less y x then 1 else 0)"

definition differenceInCalendarMonths :: "Date \<Rightarrow> Date \<Rightarrow> int" where
  "differenceInCalendarMonths x y =
     (fullYear x - fullYear y) * 12 + (monthIndex x - monthIndex y)"

definition endOfDay :: "Date \<Rightarrow> Date" where
  "endOfDay x = x\<lparr>msOfDay := 86399999\<rparr>"

definition isLastDayOfMonth :: "Date \<Rightarrow> bool" where
  "isLastDayOfMonth x = (endOfDay x = endOfMonth x)"

definition differenceInMonths :: "Date \<Rightarrow> Date \<Rightarrow> int" where
  "differenceInMonths later earlier =
     (let sign = compareAsc later earlier;
          difference = \<bar>differenceInCalendarMonths later earlier\<bar>
      in if difference < 1 then 0
         else
           let w0 = (if monthIndex later = 1 \<and> 27 < dayOfMonth later
                     then setDate later 30 else later);
               w = setMonth w0 (monthIndex w0 - sign * difference);
               isLastMonthNotFull = (compareAsc w earlier = - sign);
               isLastMonthNotFull' =
                 (if isLastDayOfMonth later \<and> difference = 1 \<and> compareAsc later earlier = 1
                  then False else isLastMonthNotFull)
           in sign * (difference - (if isLastMonthNotFull' then 1 else 0)))"

section \<open>The component's state\<close>

record DateRange =
  "from" :: Date
  to :: Date

record CompareOptions =
  toPreviousPeriod :: bool
  toPreviousYear :: bool
  toFinancialYearToDate :: bool
  byCompany :: bool
  byCategoryClassLocation :: bool
  periodsToCompare :: int

record Format =
  label :: string
  category :: string

definition commonFormats :: "Format list" where
  "commonFormats =
     [\<lparr>label = ''Current and previous 3 months'', category = ''Multi-period''\<rparr>,
      \<lparr>label = ''This month'', category = ''Current''\<rparr>,
      \<lparr>label = ''This month by company'', category = ''Current''\<rparr>,
      \<lparr>label = ''This calendar quarter'', category = ''Current''\<rparr>,
      \<lparr>label = ''This calendar quarter to date'', category = ''Current''\<rparr>,
      \<lparr>label = ''This calendar year'', category = ''Current''\<rparr>,
      \<lparr>label = ''This calendar year by month'', category = ''Current''\<rparr>,
      \<lparr>label = ''This calendar year by company'', category = ''Current''\<rparr>,
      \<lparr>label = ''This calendar year by quarter'', category = ''Current''\<rparr>,
      \<lparr>label = ''Calendar quarter to date by month'', category = ''Multi-period''\<rparr>,
      \<lparr>label = ''Calendar year to last month'', category = ''Multi-period''\<rparr>,
      \<lparr>label = ''Calendar year to last month by month'', category = ''Multi-period''\<rparr>]"

datatype Tab = Presets | Custom | Compare

text \<open>The values held by the component's \<open>useState\<close> hooks.\<close>

record State =
  isOpen :: bool
  searchTerm :: string
  selectedFormat :: "string option"
  activeTab :: Tab
  periodStart :: Date
  periodEnd :: Date
  periodDuration :: string
  startYear :: int
  endYear :: int
  compareOptions :: CompareOptions

text \<open>
  The two callbacks are optional props: each field says whether the caller supplied one.
  A handler returns the next state together with the calls it made, in order.
\<close>

record Props =
  onDateRangeChange :: bool
  onCompareChange :: bool

datatype Call = OnDateRangeChange DateRange | OnCompareChange CompareOptions

definition optCall :: "bool \<Rightarrow> Call \<Rightarrow> Call list" where
  "optCall supplied c = (if supplied then [c] else [])"

definition initialCompareOptions :: CompareOptions where
  "initialCompareOptions =
     \<lparr>toPreviousPeriod = False, toPreviousYear = False, toFinancialYearToDate = False,
      byCompany = False, byCategoryClassLocation = False, periodsToCompare = 4\<rparr>"

definition initialState :: "Date \<Rightarrow> State" where
  "initialState now =
     \<lparr>isOpen = False, searchTerm = [], selectedFormat = None, activeTab = Presets,
      periodStart = startOfMonth now, periodEnd = endOfMonth now,
      periodDuration = ''1 month'', startYear = fullYear now, endYear = fullYear now,
      compareOptions = initialCompareOptions\<rparr>"

section \<open>The handlers\<close>

text \<open>
  The handlers of \<open>DateSelector.tsx\<close>, each a function of the state it reads. A handler that
  calls \<open>new Date()\<close> takes the clock reading \<open>now\<close> as an argument.

  \<open>handlePeriodDurationChange\<close> (lines 71 to 101): the \<open>switch\<close> on the duration string, with
  its \<open>default\<close> branch, then the three setters.
\<close>

definition handlePeriodDurationChange :: "Date \<Rightarrow> string \<Rightarrow> State \<Rightarrow> State" where
  "handlePeriodDurationChange now duration s =
     (let (newStart, newEnd) =
        (if duration = ''1 month'' then (startOfMonth now, endOfMonth now)
         else if duration = ''3 months'' then (startOfMonth (subMonths now 2), endOfMonth now)
         else if duration = ''6 months'' then (startOfMonth (subMonths now 5), endOfMonth now)
         else if duration = ''1 year'' then (startOfMonth (subMonths now 11), endOfMonth now)
         else (startOfMonth now, endOfMonth now))
      in s\<lparr>periodDuration := duration, periodStart := newStart, periodEnd := newEnd\<rparr>)"

text \<open>\<open>handleFormatSelect\<close> (lines 119 to 161): seven cases and the \<open>default\<close> branch.\<close>

definition handleFormatSelect :: "Date \<Rightarrow> string \<Rightarrow> State \<Rightarrow> State" where
  "handleFormatSelect now format s =
     (let (f, t) =
        (if format = ''Current and previous 3 months''
           then (startOfMonth (subMonths now 3), endOfMonth now)
         else if format = ''This month'' then (startOfMonth now, endOfMonth now)
         else if format = ''This calendar quarter'' then (startOfQuarter now, endOfQuarter now)
         else if format = ''This calendar quarter to date'' then (startOfQuarter now, now)
         else if format = ''This calendar year'' then (startOfYear now, endOfYear now)
         else if format = ''This calendar year by month'' then (startOfYear now, endOfYear now)
         else if format = ''Calendar year to last month''
           then (startOfYear now, endOfMonth (subMonths now 1))
         else (startOfMonth now, endOfMonth now))
      in s\<lparr>selectedFormat := Some format, periodStart := f, periodEnd := t\<rparr>)"

text \<open>
  \<open>handleCompareOptionChange\<close> (lines 163 to 167) takes a field name and its new value. The
  pairs are those the panel's controls pass: a checkbox passes its boolean for its own flag,
  the period selector the number parsed from the chosen item for \<open>periodsToCompare\<close>. The
  handler copies the record with that field replaced, stores it and passes it to
  \<open>onCompareChange\<close> if the caller supplied one.
\<close>

datatype CompareOptionChange =
    SetToPreviousPeriod bool
  | SetToPreviousYear bool
  | SetToFinancialYearToDate bool
  | SetByCompany bool
  | SetByCategoryClassLocation bool
  | SetPeriodsToCompare int

fun setOption :: "CompareOptionChange \<Rightarrow> CompareOptions \<Rightarrow> CompareOptions" where
  "setOption (SetToPreviousPeriod v) c = c\<lparr>toPreviousPeriod := v\<rparr>"
| "setOption (SetToPreviousYear v) c = c\<lparr>toPreviousYear := v\<rparr>"
| "setOption (SetToFinancialYearToDate v) c = c\<lparr>toFinancialYearToDate := v\<rparr>"
| "setOption (SetByCompany v) c = c\<lparr>byCompany := v\<rparr>"
| "setOption (SetByCategoryClassLocation v) c = c\<lparr>byCategoryClassLocation := v\<rparr>"
| "setOption (SetPeriodsToCompare v) c = c\<lparr>periodsToCompare := v\<rparr>"

definition handleCompareOptionChange ::
  "Props \<Rightarrow> CompareOptionChange \<Rightarrow> State \<Rightarrow> State \<times> Call list" where
  "handleCompareOptionChange props change s =
     (let newOptions = setOption change (compareOptions s)
      in (s\<lparr>compareOptions := newOptions\<rparr>,
          optCall (onCompareChange props) (OnCompareChange newOptions)))"

text \<open>
  \<open>dateRangeValidation\<close> (lines 170 to 203), memoised on the period start, the period end and
  the duration and so always current. \<open>toLowerCase\<close> is \<open>String.prototype.toLowerCase\<close> on
  the ASCII letters.
\<close>

definition lowerChar :: "char \<Rightarrow> char" where
  "lowerChar c =
     (if 65 \<le> (of_char c :: nat) \<and> (of_char c :: nat) \<le> 90
      then char_of ((of_char c :: nat) + 32) else c)"

definition toLowerCase :: "string \<Rightarrow> string" where
  "toLowerCase str = map lowerChar str"

record Validation =
  isValid :: bool
  message :: string

definition dateRangeValidation :: "Date \<Rightarrow> Date \<Rightarrow> string \<Rightarrow> Validation" where
  "dateRangeValidation pStart pEnd duration =
     (let monthsDifference = differenceInMonths pEnd pStart;
          requiredMonths =
            (if duration = ''1 month'' then 0
             else if duration = ''3 months'' then 2
             else if duration = ''6 months'' then 5
             else if duration = ''1 year'' then 11
             else 0)
      in if monthsDifference < requiredMonths
         then \<lparr>isValid = False,
               message = ''Selected date range is too short. '' @ duration @
                         '' view requires at least '' @ toLowerCase duration @ '' of data.''\<rparr>
         else \<lparr>isValid = True, message = []\<rparr>)"

definition currentValidation :: "State \<Rightarrow> Validation" where
  "currentValidation s = dateRangeValidation (periodStart s) (periodEnd s) (periodDuration s)"

text \<open>\<open>handleApplyChanges\<close> (lines 205 to 210) and \<open>handleCancel\<close> (lines 212 to 214).\<close>

definition handleApplyChanges :: "Props \<Rightarrow> State \<Rightarrow> State \<times> Call list" where
  "handleApplyChanges props s =
     (if isValid (currentValidation s)
      then (s\<lparr>isOpen := False\<rparr>,
            optCall (onDateRangeChange props)
              (OnDateRangeChange \<lparr>from = periodStart s, to = periodEnd s\<rparr>))
      else (s, []))"

definition handleCancel :: "State \<Rightarrow> State \<times> Call list" where
  "handleCancel s = (s\<lparr>isOpen := False\<rparr>, [])"

text \<open>
  \<open>handleMonthYearSelect\<close> (lines 232 to 251). The comparisons read the period start and end of
  the state the handler was called in.
\<close>

definition handleMonthYearSelect :: "int \<Rightarrow> int \<Rightarrow> bool \<Rightarrow> State \<Rightarrow> State" where
  "handleMonthYearSelect month year isStart s =
     (let newD = newDate year month 1
      in if isStart
         then let startDate = startOfMonth newD;
                  s1 = s\<lparr>periodStart := startDate\<rparr>
              in if date_less (periodEnd s) startDate
                 then s1\<lparr>periodEnd := endOfMonth startDate, endYear := year\<rparr>
                 else s1
         else let endDate = endOfMonth newD;
                  s1 = s\<lparr>periodEnd := endDate\<rparr>
              in if date_less endDate (periodStart s)
                 then s1\<lparr>periodStart := startOfMonth endDate, startYear := year\<rparr>
                 else s1)"

section \<open>Vocabulary of the specification\<close>

text \<open>
  The duration classes offered by the period selector (lines 502 to 505), and the month
  difference the specification requires of each class, in the specification's words: 1 month
  0, 3 months 2, 6 months 5, 1 year 11.
\<close>

definition durationClasses :: "string list" where
  "durationClasses = [''1 month'', ''3 months'', ''6 months'', ''1 year'']"

definition spec_requiredMonths :: "string \<Rightarrow> int" where
  "spec_requiredMonths c =
     (if c = ''1 month'' then 0 else if c = ''3 months'' then 2
      else if c = ''6 months'' then 5 else 11)"

text \<open>The fields of the comparison options, read by name.\<close>

datatype OptionKey =
    KToPreviousPeriod | KToPreviousYear | KToFinancialYearToDate
  | KByCompany | KByCategoryClassLocation | KPeriodsToCompare

datatype OptionValue = BoolValue bool | NumberValue int

fun changedKey :: "CompareOptionChange \<Rightarrow> OptionKey" where
  "changedKey (SetToPreviousPeriod v) = KToPreviousPeriod"
| "changedKey (SetToPreviousYear v) = KToPreviousYear"
| "changedKey (SetToFinancialYearToDate v) = KToFinancialYearToDate"
| "changedKey (SetByCompany v) = KByCompany"
| "changedKey (SetByCategoryClassLocation v) = KByCategoryClassLocation"
| "changedKey (SetPeriodsToCompare v) = KPeriodsToCompare"

fun changedValue :: "CompareOptionChange \<Rightarrow> OptionValue" where
  "changedValue (SetToPreviousPeriod v) = BoolValue v"
| "changedValue (SetToPreviousYear v) = BoolValue v"
| "changedValue (SetToFinancialYearToDate v) = BoolValue v"
| "changedValue (SetByCompany v) = BoolValue v"
| "changedValue (SetByCategoryClassLocation v) = BoolValue v"
| "changedValue (SetPeriodsToCompare v) = NumberValue v"

fun optionField :: "OptionKey \<Rightarrow> CompareOptions \<Rightarrow> OptionValue" where
  "optionField KToPreviousPeriod c = BoolValue (toPreviousPeriod c)"
| "optionField KToPreviousYear c = BoolValue (toPreviousYear c)"
| "optionField KToFinancialYearToDate c = BoolValue (toFinancialYearToDate c)"
| "optionField KByCompany c = BoolValue (byCompany c)"
| "optionField KByCategoryClassLocation c = BoolValue (byCategoryClassLocation c)"
| "optionField KPeriodsToCompare c = NumberValue (periodsToCompare c)"

text \<open>The labels the resolver's \<open>switch\<close> has a case for, and the catalog labels it has none for.\<close>

definition resolverCases :: "string list" where
  "resolverCases =
     [''Current and previous 3 months'', ''This month'', ''This calendar quarter'',
      ''This calendar quarter to date'', ''This calendar year'',
      ''This calendar year by month'', ''Calendar year to last month'']"

definition unruledLabels :: "string list" where
  "unruledLabels =
     [''This month by company'', ''This calendar year by company'',
      ''This calendar year by quarter'', ''Calendar quarter to date by month'',
      ''Calendar year to last month by month'']"

text \<open>Months counted from year 0, and the first and last moment of the month \<open>k\<close> months
  before a date.\<close>

definition absMonth :: "Date \<Rightarrow> int" where
  "absMonth x = fullYear x * 12 + monthIndex x"

definition firstDayOfMonthBack :: "Date \<Rightarrow> int \<Rightarrow> Date" where
  "firstDayOfMonthBack x k =
     \<lparr>fullYear = (absMonth x - k) div 12, monthIndex = (absMonth x - k) mod 12,
      dayOfMonth = 1, msOfDay = 0\<rparr>"

definition lastDayOfMonthBack :: "Date \<Rightarrow> int \<Rightarrow> Date" where
  "lastDayOfMonthBack x k =
     \<lparr>fullYear = (absMonth x - k) div 12, monthIndex = (absMonth x - k) mod 12,
      dayOfMonth = daysInAbsMonth (absMonth x - k), msOfDay = 86399999\<rparr>"

text \<open>The number of months N of each class, in the specification's words.\<close>

definition spec_classMonths :: "string \<Rightarrow> int" where
  "spec_classMonths c =
     (if c = ''1 month'' then 1 else if c = ''3 months'' then 3
      else if c = ''6 months'' then 6 else 12)"

text \<open>Sample clock readings and states for the examples: 15 May 2024, 09:30 local time; and
  the panel opened that day, switched to the class 1 year and then to the preset "This
  month", which leaves a one-month range under the class 1 year.\<close>

definition may15 :: Date where
  "may15 = \<lparr>fullYear = 2024, monthIndex = 4, dayOfMonth = 15, msOfDay = 34200000\<rparr>"

definition shortYearState :: State where
  "shortYearState =
     handleFormatSelect may15 ''This month''
       (handlePeriodDurationChange may15 ''1 year'' ((initialState may15)\<lparr>isOpen := True\<rparr>))"

text \<open>The first and the last moment of month \<open>m\<close> of year \<open>y\<close>.\<close>

definition firstDayOf :: "int \<Rightarrow> int \<Rightarrow> Date" where
  "firstDayOf y m = \<lparr>fullYear = y, monthIndex = m, dayOfMonth = 1, msOfDay = 0\<rparr>"

definition lastDayOf :: "int \<Rightarrow> int \<Rightarrow> Date" where
  "lastDayOf y m =
     \<lparr>fullYear = y, monthIndex = m, dayOfMonth = daysInMonth y m, msOfDay = 86399999\<rparr>"

text \<open>The range a preset leaves in the state.\<close>

definition resolvedRange :: "Date \<Rightarrow> string \<Rightarrow> State \<Rightarrow> DateRange" where
  "resolvedRange now format s =
     \<lparr>from = periodStart (handleFormatSelect now format s),
      to = periodEnd (handleFormatSelect now format s)\<rparr>"

text \<open>\<open>monthBefore x y\<close>: the calendar month of \<open>x\<close> is strictly before that of \<open>y\<close>.
  \<open>chosenMonth\<close> is the date the month grid builds from the picked month and year, and
  \<open>chosenMonthEnd\<close> the last moment of that month.\<close>

definition monthBefore :: "Date \<Rightarrow> Date \<Rightarrow> bool" where
  "monthBefore x y =
     (fullYear x < fullYear y \<or> (fullYear x = fullYear y \<and> monthIndex x < monthIndex y))"

definition chosenMonth :: "int \<Rightarrow> int \<Rightarrow> Date" where
  "chosenMonth month year = newDate year month 1"

definition chosenMonthEnd :: "int \<Rightarrow> int \<Rightarrow> Date" where
  "chosenMonthEnd month year =
     lastDayOf (fullYear (chosenMonth month year)) (monthIndex (chosenMonth month year))"

text \<open>A clock reading in January: 15 January 2024, 09:30 local time.\<close>

definition jan15 :: Date where
  "jan15 = \<lparr>fullYear = 2024, monthIndex = 0, dayOfMonth = 15, msOfDay = 34200000\<rparr>"

section \<open>Calendar arithmetic\<close>

lemma daysInMonth_bounds: "28 \<le> daysInMonth y m \<and> daysInMonth y m \<le> 31"
  by (simp add: daysInMonth_def)

lemma daysInAbsMonth_bounds: "28 \<le> daysInAbsMonth a \<and> daysInAbsMonth a \<le> 31"
  by (simp add: daysInAbsMonth_def daysInMonth_bounds)

lemma rollDays_id: "1 \<le> d \<Longrightarrow> d \<le> daysInAbsMonth a \<Longrightarrow> rollDays a d = (a, d)"
  by (subst rollDays.simps) simp

lemma rollDays_zero: "rollDays a 0 = (a - 1, daysInAbsMonth (a - 1))"
proof -
  have "1 \<le> daysInAbsMonth (a - 1)"
    using daysInAbsMonth_bounds [of "a - 1"] by linarith
  then have "rollDays (a - 1) (daysInAbsMonth (a - 1)) = (a - 1, daysInAbsMonth (a - 1))"
    by (simp add: rollDays_id)
  then show ?thesis
    by (subst rollDays.simps) simp
qed

lemma rollDays_carry:
  assumes "daysInAbsMonth a < d" and "d \<le> daysInAbsMonth a + 28"
  shows "rollDays a d = (a + 1, d - daysInAbsMonth a)"
proof -
  have b: "28 \<le> daysInAbsMonth a" "28 \<le> daysInAbsMonth (a + 1)"
    using daysInAbsMonth_bounds [of a] daysInAbsMonth_bounds [of "a + 1"] by linarith+
  have "rollDays (a + 1) (d - daysInAbsMonth a) = (a + 1, d - daysInAbsMonth a)"
    using assms b by (intro rollDays_id) linarith+
  moreover have "\<not> d < 1" using assms b by linarith
  ultimately show ?thesis
    using assms by (subst rollDays.simps) simp
qed

lemma makeDate_plain:
  "1 \<le> d \<Longrightarrow> d \<le> daysInAbsMonth (y * 12 + m) \<Longrightarrow>
   makeDate y m d t =
     \<lparr>fullYear = (y * 12 + m) div 12, monthIndex = (y * 12 + m) mod 12,
      dayOfMonth = d, msOfDay = t\<rparr>"
  by (simp add: makeDate_def rollDays_id)

lemma makeDate_day0:
  "makeDate y m 0 t =
     \<lparr>fullYear = (y * 12 + m - 1) div 12, monthIndex = (y * 12 + m - 1) mod 12,
      dayOfMonth = daysInAbsMonth (y * 12 + m - 1), msOfDay = t\<rparr>"
  by (simp add: makeDate_def rollDays_zero)

lemma startOfMonth_eq:
  "0 \<le> monthIndex x \<Longrightarrow> monthIndex x \<le> 11 \<Longrightarrow>
   startOfMonth x =
     \<lparr>fullYear = fullYear x, monthIndex = monthIndex x, dayOfMonth = 1, msOfDay = 0\<rparr>"
  using daysInAbsMonth_bounds [of "fullYear x * 12 + monthIndex x"]
  by (simp add: startOfMonth_def setDate_def makeDate_plain)

lemma endOfMonth_eq:
  "0 \<le> monthIndex x \<Longrightarrow> monthIndex x \<le> 11 \<Longrightarrow>
   endOfMonth x =
     \<lparr>fullYear = fullYear x, monthIndex = monthIndex x,
      dayOfMonth = daysInMonth (fullYear x) (monthIndex x), msOfDay = 86399999\<rparr>"
  by (simp add: endOfMonth_def makeDate_day0 daysInAbsMonth_def)

section \<open>The period-duration validator\<close>

lemma message_names_class:
  "sublist d (''Selected date range is too short. '' @ d @
              '' view requires at least '' @ toLowerCase d @ '' of data.'')"
  unfolding sublist_def by blast

lemma validation_cases:
  "dateRangeValidation ps pe d =
     (if differenceInMonths pe ps <
           (if d = ''1 month'' then 0 else if d = ''3 months'' then 2
            else if d = ''6 months'' then 5 else if d = ''1 year'' then 11 else 0)
      then \<lparr>isValid = False,
            message = ''Selected date range is too short. '' @ d @
                      '' view requires at least '' @ toLowerCase d @ '' of data.''\<rparr>
      else \<lparr>isValid = True, message = []\<rparr>)"
  by (simp add: dateRangeValidation_def Let_def)

lemma required_of_class:
  "d \<in> set durationClasses \<Longrightarrow>
   (if d = ''1 month'' then 0 else if d = ''3 months'' then 2
    else if d = ''6 months'' then 5 else if d = ''1 year'' then 11 else (0::int))
   = spec_requiredMonths d"
  by (auto simp: durationClasses_def spec_requiredMonths_def)

text \<open>
  Claim C1. For every pair of dates and every duration class, the validator compares the
  whole-month difference between the period's end and start with the class's required
  minimum (1 month: 0, 3 months: 2, 6 months: 5, 1 year: 11). A strictly smaller difference
  gives an invalid result with a non-empty message that contains the class's name; otherwise
  the result is valid and the message is empty. In particular a difference of exactly 10
  months is invalid for the class 1 year, with a message containing "1 year".
\<close>

theorem validator_threshold:
  assumes "d \<in> set durationClasses"
  shows "(differenceInMonths pe ps < spec_requiredMonths d \<longrightarrow>
            \<not> isValid (dateRangeValidation ps pe d) \<and>
            message (dateRangeValidation ps pe d) \<noteq> [] \<and>
            sublist d (message (dateRangeValidation ps pe d))) \<and>
         (\<not> differenceInMonths pe ps < spec_requiredMonths d \<longrightarrow>
            isValid (dateRangeValidation ps pe d) \<and>
            message (dateRangeValidation ps pe d) = []) \<and>
         (differenceInMonths pe ps = 10 \<longrightarrow>
            \<not> isValid (dateRangeValidation ps pe ''1 year'') \<and>
            sublist ''1 year'' (message (dateRangeValidation ps pe ''1 year'')))"
proof -
  let ?r = "dateRangeValidation ps pe d"
  have short: "differenceInMonths pe ps < spec_requiredMonths d \<Longrightarrow>
      ?r = \<lparr>isValid = False,
            message = ''Selected date range is too short. '' @ d @
                      '' view requires at least '' @ toLowerCase d @ '' of data.''\<rparr>"
    using required_of_class [OF assms] by (simp add: validation_cases)
  have long: "\<not> differenceInMonths pe ps < spec_requiredMonths d \<Longrightarrow>
      ?r = \<lparr>isValid = True, message = []\<rparr>"
    using required_of_class [OF assms] by (simp add: validation_cases)
  have year: "differenceInMonths pe ps = 10 \<Longrightarrow>
      dateRangeValidation ps pe ''1 year'' =
        \<lparr>isValid = False,
         message = ''Selected date range is too short. '' @ ''1 year'' @
                   '' view requires at least '' @ toLowerCase ''1 year'' @ '' of data.''\<rparr>"
    by (simp add: validation_cases)
  show ?thesis
  proof (intro conjI impI)
    assume a: "differenceInMonths pe ps < spec_requiredMonths d"
    show "\<not> isValid ?r" by (simp add: short [OF a])
    show "message ?r \<noteq> []" by (simp add: short [OF a])
    show "sublist d (message ?r)"
      unfolding short [OF a] Validation.select_convs by (rule message_names_class)
  next
    assume a: "\<not> differenceInMonths pe ps < spec_requiredMonths d"
    show "isValid ?r" by (simp add: long [OF a])
    show "message ?r = []" by (simp add: long [OF a])
  next
    assume a: "differenceInMonths pe ps = 10"
    show "\<not> isValid (dateRangeValidation ps pe ''1 year'')" by (simp add: year [OF a])
    show "sublist ''1 year'' (message (dateRangeValidation ps pe ''1 year''))"
      unfolding year [OF a] Validation.select_convs by (rule message_names_class)
  qed
qed

lemma example_ten_months:
  "differenceInMonths \<lparr>fullYear = 2024, monthIndex = 10, dayOfMonth = 30, msOfDay = 86399999\<rparr>
     \<lparr>fullYear = 2024, monthIndex = 0, dayOfMonth = 1, msOfDay = 0\<rparr> = 10"
  by code_simp

theorem validator_threshold_witness:
  "''1 year'' \<in> set durationClasses \<and>
   differenceInMonths \<lparr>fullYear = 2024, monthIndex = 10, dayOfMonth = 30, msOfDay = 86399999\<rparr>
     \<lparr>fullYear = 2024, monthIndex = 0, dayOfMonth = 1, msOfDay = 0\<rparr> < spec_requiredMonths ''1 year'' \<and>
   \<not> isValid (dateRangeValidation \<lparr>fullYear = 2024, monthIndex = 0, dayOfMonth = 1, msOfDay = 0\<rparr>
       \<lparr>fullYear = 2024, monthIndex = 10, dayOfMonth = 30, msOfDay = 86399999\<rparr> ''1 year'') \<and>
   sublist ''1 year'' (message (dateRangeValidation \<lparr>fullYear = 2024, monthIndex = 0, dayOfMonth = 1, msOfDay = 0\<rparr>
       \<lparr>fullYear = 2024, monthIndex = 10, dayOfMonth = 30, msOfDay = 86399999\<rparr> ''1 year''))"
proof -
  have c: "''1 year'' \<in> set durationClasses" by (simp add: durationClasses_def)
  have r: "spec_requiredMonths ''1 year'' = 11" by (simp add: spec_requiredMonths_def)
  show ?thesis
    using validator_threshold [OF c,
        of "\<lparr>fullYear = 2024, monthIndex = 10, dayOfMonth = 30, msOfDay = 86399999\<rparr>"
           "\<lparr>fullYear = 2024, monthIndex = 0, dayOfMonth = 1, msOfDay = 0\<rparr>"]
      c r example_ten_months
    by simp
qed

section \<open>Apply and Cancel\<close>

text \<open>
  Claim C5. Apply calls \<open>onDateRangeChange\<close> exactly once, with the current period start and
  end, and closes the panel, when the validator's current result is valid; when it is invalid,
  Apply makes no call and leaves the state (and so the open panel) as it is. The optional
  callback is called only where the caller supplied it.
\<close>

theorem apply_gate:
  "(isValid (currentValidation s) \<longrightarrow>
      fst (handleApplyChanges props s) = s\<lparr>isOpen := False\<rparr> \<and>
      snd (handleApplyChanges props s) =
        (if onDateRangeChange props
         then [OnDateRangeChange \<lparr>from = periodStart s, to = periodEnd s\<rparr>] else [])) \<and>
   (\<not> isValid (currentValidation s) \<longrightarrow> handleApplyChanges props s = (s, []))"
  by (simp add: handleApplyChanges_def optCall_def)

lemma valid_example: "isValid (currentValidation ((initialState may15)\<lparr>isOpen := True\<rparr>))"
  by code_simp

lemma invalid_example: "\<not> isValid (currentValidation shortYearState)"
  by code_simp

lemma shortYearState_open: "isOpen shortYearState"
  by (simp add: shortYearState_def handleFormatSelect_def handlePeriodDurationChange_def
      Let_def split: prod.splits)

theorem apply_gate_witness:
  "isValid (currentValidation ((initialState may15)\<lparr>isOpen := True\<rparr>)) \<and>
   handleApplyChanges \<lparr>onDateRangeChange = True, onCompareChange = True\<rparr>
       ((initialState may15)\<lparr>isOpen := True\<rparr>) =
     (initialState may15,
      [OnDateRangeChange
         \<lparr>from = \<lparr>fullYear = 2024, monthIndex = 4, dayOfMonth = 1, msOfDay = 0\<rparr>,
          to = \<lparr>fullYear = 2024, monthIndex = 4, dayOfMonth = 31, msOfDay = 86399999\<rparr>\<rparr>]) \<and>
   \<not> isValid (currentValidation shortYearState) \<and>
   snd (handleApplyChanges \<lparr>onDateRangeChange = True, onCompareChange = True\<rparr>
          shortYearState) = [] \<and>
   isOpen (fst (handleApplyChanges \<lparr>onDateRangeChange = True, onCompareChange = True\<rparr>
                  shortYearState))"
proof -
  let ?p = "\<lparr>onDateRangeChange = True, onCompareChange = True\<rparr>"
  let ?s = "(initialState may15)\<lparr>isOpen := True\<rparr>"
  have ps: "periodStart ?s = \<lparr>fullYear = 2024, monthIndex = 4, dayOfMonth = 1, msOfDay = 0\<rparr>"
    by code_simp
  have pe: "periodEnd ?s =
      \<lparr>fullYear = 2024, monthIndex = 4, dayOfMonth = 31, msOfDay = 86399999\<rparr>"
    by code_simp
  have cl: "?s\<lparr>isOpen := False\<rparr> = initialState may15"
    by (simp add: initialState_def)
  show ?thesis
    using apply_gate [of ?s ?p] apply_gate [of shortYearState ?p]
      valid_example invalid_example ps pe cl shortYearState_open
    by (simp add: prod_eq_iff)
qed

text \<open>
  Claim C10. Cancel closes the panel, calls neither callback and leaves every other part of
  the state as it is: the period start and end, the duration class, the selected preset, the
  comparison options, the search text, the active tab and the two year cursors. Whatever was
  being edited stays in the state.
\<close>

theorem cancel_frame:
  "snd (handleCancel s) = [] \<and>
   \<not> isOpen (fst (handleCancel s)) \<and>
   periodStart (fst (handleCancel s)) = periodStart s \<and>
   periodEnd (fst (handleCancel s)) = periodEnd s \<and>
   periodDuration (fst (handleCancel s)) = periodDuration s \<and>
   selectedFormat (fst (handleCancel s)) = selectedFormat s \<and>
   compareOptions (fst (handleCancel s)) = compareOptions s \<and>
   searchTerm (fst (handleCancel s)) = searchTerm s \<and>
   activeTab (fst (handleCancel s)) = activeTab s \<and>
   startYear (fst (handleCancel s)) = startYear s \<and>
   endYear (fst (handleCancel s)) = endYear s \<and>
   fst (handleCancel s) = s\<lparr>isOpen := False\<rparr>"
  by (simp add: handleCancel_def)

section \<open>The comparison options\<close>

lemma setOption_field: "optionField (changedKey ch) (setOption ch c) = changedValue ch"
  by (cases ch) simp_all

lemma setOption_frame: "k \<noteq> changedKey ch \<Longrightarrow> optionField k (setOption ch c) = optionField k c"
  by (cases ch; cases k) simp_all

text \<open>
  Claim C6. Every single change of one comparison option calls \<open>onCompareChange\<close> exactly once
  with the complete updated record, in which the changed field holds the new value and every
  other field is as before; the call does not depend on the validator or on Apply. Switching
  \<open>byCompany\<close> on from the initial options passes the record with \<open>byCompany\<close> true, the
  other four flags false and \<open>periodsToCompare\<close> 4.
\<close>

theorem compare_change_emits:
  "snd (handleCompareOptionChange props ch s) =
     (if onCompareChange props then [OnCompareChange (compareOptions (fst (handleCompareOptionChange props ch s)))] else []) \<and>
   fst (handleCompareOptionChange props ch s) =
     s\<lparr>compareOptions := compareOptions (fst (handleCompareOptionChange props ch s))\<rparr> \<and>
   optionField (changedKey ch) (compareOptions (fst (handleCompareOptionChange props ch s))) =
     changedValue ch \<and>
   (\<forall>k. k \<noteq> changedKey ch \<longrightarrow>
        optionField k (compareOptions (fst (handleCompareOptionChange props ch s))) =
        optionField k (compareOptions s)) \<and>
   (compareOptions s = initialCompareOptions \<longrightarrow>
      snd (handleCompareOptionChange \<lparr>onDateRangeChange = dr, onCompareChange = True\<rparr>
             (SetByCompany True) s) =
        [OnCompareChange
           \<lparr>toPreviousPeriod = False, toPreviousYear = False, toFinancialYearToDate = False,
            byCompany = True, byCategoryClassLocation = False, periodsToCompare = 4\<rparr>])"
  by (simp add: handleCompareOptionChange_def optCall_def Let_def setOption_field
      setOption_frame initialCompareOptions_def)

theorem compare_change_emits_witness:
  "KToPreviousYear \<noteq> changedKey (SetByCompany True) \<and>
   compareOptions shortYearState = initialCompareOptions \<and>
   \<not> isValid (currentValidation shortYearState) \<and>
   handleCompareOptionChange \<lparr>onDateRangeChange = True, onCompareChange = True\<rparr>
       (SetByCompany True) shortYearState =
     (shortYearState\<lparr>compareOptions :=
        \<lparr>toPreviousPeriod = False, toPreviousYear = False, toFinancialYearToDate = False,
         byCompany = True, byCategoryClassLocation = False, periodsToCompare = 4\<rparr>\<rparr>,
      [OnCompareChange
         \<lparr>toPreviousPeriod = False, toPreviousYear = False, toFinancialYearToDate = False,
          byCompany = True, byCategoryClassLocation = False, periodsToCompare = 4\<rparr>]) \<and>
   optionField KToPreviousYear
     (compareOptions (fst (handleCompareOptionChange
        \<lparr>onDateRangeChange = True, onCompareChange = True\<rparr> (SetByCompany True) shortYearState))) =
     BoolValue False"
proof -
  let ?p = "\<lparr>onDateRangeChange = True, onCompareChange = True\<rparr>"
  have c: "compareOptions shortYearState = initialCompareOptions"
    by (simp add: shortYearState_def handleFormatSelect_def handlePeriodDurationChange_def
        initialState_def Let_def split: prod.splits)
  have v: "\<not> isValid (currentValidation shortYearState)"
    by code_simp
  have f: "optionField KToPreviousYear initialCompareOptions = BoolValue False"
    by (simp add: initialCompareOptions_def)
  have k: "KToPreviousYear \<noteq> changedKey (SetByCompany True)" by simp
  have e: "compareOptions (fst (handleCompareOptionChange ?p (SetByCompany True) shortYearState)) =
      \<lparr>toPreviousPeriod = False, toPreviousYear = False, toFinancialYearToDate = False,
       byCompany = True, byCategoryClassLocation = False, periodsToCompare = 4\<rparr>"
    by (simp add: handleCompareOptionChange_def Let_def c initialCompareOptions_def)
  show ?thesis
    using compare_change_emits [of ?p "SetByCompany True" shortYearState True] c v f k e
    by (simp add: prod_eq_iff)
qed

section \<open>The preset resolver\<close>

text \<open>
  Claim C9. The catalog labels "This month by company", "This calendar year by company",
  "This calendar year by quarter", "Calendar quarter to date by month" and "Calendar year to
  last month by month" are in the catalog, have no case in the resolver and so resolve to
  the first through last day of the current month, as any label without a case does.
\<close>

theorem unruled_labels_default:
  "set unruledLabels \<subseteq> label ` set commonFormats \<and>
   set unruledLabels \<inter> set resolverCases = {} \<and>
   (\<forall>l \<in> set unruledLabels.
      periodStart (handleFormatSelect now l s) = startOfMonth now \<and>
      periodEnd (handleFormatSelect now l s) = endOfMonth now \<and>
      periodStart (handleFormatSelect now l s) = periodStart (handleFormatSelect now ''This month'' s) \<and>
      periodEnd (handleFormatSelect now l s) = periodEnd (handleFormatSelect now ''This month'' s)) \<and>
   (\<forall>u. u \<notin> set resolverCases \<longrightarrow>
      periodStart (handleFormatSelect now u s) = startOfMonth now \<and>
      periodEnd (handleFormatSelect now u s) = endOfMonth now) \<and>
   (valid_date now \<longrightarrow>
      startOfMonth now = firstDayOfMonthBack now 0 \<and> endOfMonth now = lastDayOfMonthBack now 0)"
proof (intro conjI allI ballI impI)
  show "set unruledLabels \<subseteq> label ` set commonFormats"
    by (simp add: unruledLabels_def commonFormats_def)
  show "set unruledLabels \<inter> set resolverCases = {}"
    by (simp add: unruledLabels_def resolverCases_def)
next
  fix l assume l: "l \<in> set unruledLabels"
  then have n: "l \<notin> set resolverCases"
    by (auto simp: unruledLabels_def resolverCases_def)
  show "periodStart (handleFormatSelect now l s) = startOfMonth now"
    using n by (simp add: handleFormatSelect_def resolverCases_def)
  show "periodEnd (handleFormatSelect now l s) = endOfMonth now"
    using n by (simp add: handleFormatSelect_def resolverCases_def)
  show "periodStart (handleFormatSelect now l s) =
        periodStart (handleFormatSelect now ''This month'' s)"
    using n by (simp add: handleFormatSelect_def resolverCases_def)
  show "periodEnd (handleFormatSelect now l s) =
        periodEnd (handleFormatSelect now ''This month'' s)"
    using n by (simp add: handleFormatSelect_def resolverCases_def)
next
  fix u assume n: "u \<notin> set resolverCases"
  show "periodStart (handleFormatSelect now u s) = startOfMonth now"
    using n by (simp add: handleFormatSelect_def resolverCases_def)
  show "periodEnd (handleFormatSelect now u s) = endOfMonth now"
    using n by (simp add: handleFormatSelect_def resolverCases_def)
next
  assume v: "valid_date now"
  show "startOfMonth now = firstDayOfMonthBack now 0"
    using v by (simp add: valid_date_def startOfMonth_eq firstDayOfMonthBack_def absMonth_def)
  show "endOfMonth now = lastDayOfMonthBack now 0"
    using v by (simp add: valid_date_def endOfMonth_eq lastDayOfMonthBack_def absMonth_def
        daysInAbsMonth_def)
qed

theorem unruled_labels_default_witness:
  "''This calendar year by quarter'' \<in> set unruledLabels \<and>
   ''Last month'' \<notin> set resolverCases \<and>
   valid_date may15 \<and>
   periodStart (handleFormatSelect may15 ''This calendar year by quarter'' (initialState may15)) =
     \<lparr>fullYear = 2024, monthIndex = 4, dayOfMonth = 1, msOfDay = 0\<rparr> \<and>
   periodEnd (handleFormatSelect may15 ''This calendar year by quarter'' (initialState may15)) =
     \<lparr>fullYear = 2024, monthIndex = 4, dayOfMonth = 31, msOfDay = 86399999\<rparr> \<and>
   periodStart (handleFormatSelect may15 ''Last month'' (initialState may15)) =
     \<lparr>fullYear = 2024, monthIndex = 4, dayOfMonth = 1, msOfDay = 0\<rparr> \<and>
   periodEnd (handleFormatSelect may15 ''Last month'' (initialState may15)) =
     \<lparr>fullYear = 2024, monthIndex = 4, dayOfMonth = 31, msOfDay = 86399999\<rparr>"
proof -
  have a: "''This calendar year by quarter'' \<in> set unruledLabels"
    by (simp add: unruledLabels_def)
  have b: "''Last month'' \<notin> set resolverCases"
    by (simp add: resolverCases_def)
  have v: "valid_date may15" by code_simp
  have f: "firstDayOfMonthBack may15 0 =
      \<lparr>fullYear = 2024, monthIndex = 4, dayOfMonth = 1, msOfDay = 0\<rparr>"
    by code_simp
  have l: "lastDayOfMonthBack may15 0 =
      \<lparr>fullYear = 2024, monthIndex = 4, dayOfMonth = 31, msOfDay = 86399999\<rparr>"
    by code_simp
  show ?thesis
    using unruled_labels_default [of may15 "initialState may15"] a b v f l
    by simp
qed

section \<open>Months before and after\<close>

lemma absMonth_norm [simp]:
  "absMonth \<lparr>fullYear = a div 12, monthIndex = a mod 12, dayOfMonth = d, msOfDay = t\<rparr> = a"
  by (simp add: absMonth_def)

lemma startOfMonth_abs:
  "startOfMonth x =
     \<lparr>fullYear = absMonth x div 12, monthIndex = absMonth x mod 12, dayOfMonth = 1, msOfDay = 0\<rparr>"
  using daysInAbsMonth_bounds [of "fullYear x * 12 + monthIndex x"]
  by (simp add: startOfMonth_def setDate_def makeDate_plain absMonth_def)

lemma endOfMonth_abs:
  "endOfMonth x =
     \<lparr>fullYear = absMonth x div 12, monthIndex = absMonth x mod 12,
      dayOfMonth = daysInAbsMonth (absMonth x), msOfDay = 86399999\<rparr>"
  by (simp add: endOfMonth_def makeDate_day0 absMonth_def)

lemma addMonths_abs:
  assumes "1 \<le> dayOfMonth x" and "n \<noteq> 0"
  shows "addMonths x n =
     \<lparr>fullYear = (absMonth x + n) div 12, monthIndex = (absMonth x + n) mod 12,
      dayOfMonth = min (dayOfMonth x) (daysInAbsMonth (absMonth x + n)), msOfDay = msOfDay x\<rparr>"
proof -
  let ?a = "absMonth x + n"
  have e: "makeDate (fullYear x) (monthIndex x + n + 1) 0 (msOfDay x) =
      \<lparr>fullYear = ?a div 12, monthIndex = ?a mod 12, dayOfMonth = daysInAbsMonth ?a,
       msOfDay = msOfDay x\<rparr>"
    by (simp add: makeDate_day0 absMonth_def algebra_simps)
  have r: "?a div 12 * 12 + ?a mod 12 = ?a" by simp
  show ?thesis
  proof (cases "daysInAbsMonth ?a \<le> dayOfMonth x")
    case True
    then show ?thesis using assms by (simp add: addMonths_def e Let_def min_def)
  next
    case False
    then have "makeDate (?a div 12) (?a mod 12) (dayOfMonth x) (msOfDay x) =
        \<lparr>fullYear = ?a div 12, monthIndex = ?a mod 12, dayOfMonth = dayOfMonth x,
         msOfDay = msOfDay x\<rparr>"
      using assms by (simp add: makeDate_plain r)
    then show ?thesis using assms False by (simp add: addMonths_def e Let_def min_def)
  qed
qed

lemma startOfMonth_subMonths:
  assumes "1 \<le> dayOfMonth x"
  shows "startOfMonth (subMonths x k) = firstDayOfMonthBack x k"
proof (cases "k = 0")
  case True
  then show ?thesis
    by (simp add: subMonths_def addMonths_def startOfMonth_abs firstDayOfMonthBack_def)
next
  case False
  then show ?thesis
    using assms
    by (simp add: subMonths_def addMonths_abs startOfMonth_abs firstDayOfMonthBack_def)
qed

lemma endOfMonth_subMonths:
  assumes "1 \<le> dayOfMonth x"
  shows "endOfMonth (subMonths x k) = lastDayOfMonthBack x k"
proof (cases "k = 0")
  case True
  then show ?thesis
    by (simp add: subMonths_def addMonths_def endOfMonth_abs lastDayOfMonthBack_def)
next
  case False
  then show ?thesis
    using assms
    by (simp add: subMonths_def addMonths_abs endOfMonth_abs lastDayOfMonthBack_def)
qed

lemma makeDate_fwd:
  assumes "1 \<le> d" and "d \<le> 31"
  shows "y * 12 + m \<le> absMonth (makeDate y m d t) \<and>
         1 \<le> dayOfMonth (makeDate y m d t) \<and>
         0 \<le> monthIndex (makeDate y m d t) \<and> monthIndex (makeDate y m d t) \<le> 11 \<and>
         msOfDay (makeDate y m d t) = t"
proof -
  define a where "a = y * 12 + m"
  have b: "28 \<le> daysInAbsMonth a" using daysInAbsMonth_bounds [of a] by simp
  have "rollDays a d = (a, d) \<or> rollDays a d = (a + 1, d - daysInAbsMonth a) \<and> daysInAbsMonth a < d"
  proof (cases "d \<le> daysInAbsMonth a")
    case True
    then show ?thesis using assms by (simp add: rollDays_id)
  next
    case False
    then show ?thesis using assms b by (simp add: rollDays_carry)
  qed
  then show ?thesis
    using assms unfolding makeDate_def a_def [symmetric]
    by (auto simp: absMonth_def)
qed

lemma after_first_day:
  assumes "c \<le> absMonth w" and "0 \<le> monthIndex w" and "monthIndex w \<le> 11"
    and "1 \<le> dayOfMonth w" and "0 < msOfDay w"
  shows "compareAsc w \<lparr>fullYear = c div 12, monthIndex = c mod 12, dayOfMonth = 1, msOfDay = 0\<rparr> = 1"
proof -
  define q where "q = c div 12"
  define r where "r = c mod 12"
  have c: "c = q * 12 + r" by (simp add: q_def r_def)
  have r: "0 \<le> r" "r < 12" by (simp_all add: r_def)
  have le: "q * 12 + r \<le> fullYear w * 12 + monthIndex w"
    using assms(1) c by (simp add: absMonth_def)
  show ?thesis
    unfolding q_def [symmetric] r_def [symmetric]
    using le r assms(2-5) by (auto simp: compareAsc_def date_less_def)
qed

lemma differenceInMonths_default:
  assumes v: "valid_date now" and k: "0 \<le> k"
  shows "differenceInMonths (endOfMonth now) (firstDayOfMonthBack now k) = k"
proof -
  let ?later = "endOfMonth now"
  let ?c = "absMonth now - k"
  let ?earlier = "\<lparr>fullYear = ?c div 12, monthIndex = ?c mod 12, dayOfMonth = 1, msOfDay = 0\<rparr>"
  have m: "0 \<le> monthIndex now" "monthIndex now \<le> 11" using v by (simp_all add: valid_date_def)
  have later: "?later = \<lparr>fullYear = fullYear now, monthIndex = monthIndex now,
      dayOfMonth = daysInMonth (fullYear now) (monthIndex now), msOfDay = 86399999\<rparr>"
    using m by (rule endOfMonth_eq)
  have L: "28 \<le> dayOfMonth ?later" "dayOfMonth ?later \<le> 31"
    using daysInMonth_bounds [of "fullYear now" "monthIndex now"] by (simp_all add: later)
  have absl: "absMonth ?later = absMonth now" by (simp add: later absMonth_def)
  have sign: "compareAsc ?later ?earlier = 1"
    using k m L by (intro after_first_day) (simp_all add: absl, simp_all add: later)
  have diff: "differenceInCalendarMonths ?later ?earlier = k"
  proof -
    have "?c div 12 * 12 + ?c mod 12 = ?c" by simp
    then show ?thesis
      unfolding differenceInCalendarMonths_def later
      by (simp add: absMonth_def algebra_simps)
  qed
  show ?thesis
  proof (cases "k < 1")
    case True
    then have "k = 0" using k by simp
    then show ?thesis
      using diff by (simp add: differenceInMonths_def firstDayOfMonthBack_def Let_def)
  next
    case False
    define w0 where "w0 = (if monthIndex ?later = 1 \<and> 27 < dayOfMonth ?later
                           then setDate ?later 30 else ?later)"
    have w0: "absMonth now \<le> absMonth w0 \<and> 1 \<le> dayOfMonth w0 \<and> dayOfMonth w0 \<le> 31 \<and>
              msOfDay w0 = 86399999"
    proof (cases "monthIndex ?later = 1 \<and> 27 < dayOfMonth ?later")
      case True
      have d30: "daysInAbsMonth (fullYear now * 12 + 1) < 30"
        by (simp add: daysInAbsMonth_def daysInMonth_def)
      have "30 \<le> daysInAbsMonth (fullYear now * 12 + 1) + 28"
        using daysInAbsMonth_bounds [of "fullYear now * 12 + 1"] by linarith
      then have "rollDays (fullYear now * 12 + 1) 30 =
          (fullYear now * 12 + 1 + 1, 30 - daysInAbsMonth (fullYear now * 12 + 1))"
        using d30 by (intro rollDays_carry) simp_all
      moreover have "monthIndex now = 1" using True by (simp add: later)
      ultimately show ?thesis
        using True d30 daysInAbsMonth_bounds [of "fullYear now * 12 + 1"]
        by (simp add: w0_def setDate_def makeDate_def later absMonth_def)
    next
      case False
      then show ?thesis using L absl by (simp add: w0_def) (simp add: later)
    qed
    define w where "w = setMonth w0 (monthIndex w0 - k)"
    have fw: "fullYear w0 * 12 + (monthIndex w0 - k) \<le> absMonth w \<and>
         1 \<le> dayOfMonth w \<and> 0 \<le> monthIndex w \<and> monthIndex w \<le> 11 \<and>
         msOfDay w = msOfDay w0"
      unfolding w_def setMonth_def using w0 by (intro makeDate_fwd) simp_all
    have "?c \<le> absMonth w" using fw w0 by (simp add: absMonth_def)
    then have cw: "compareAsc w ?earlier = 1"
      using fw w0 by (intro after_first_day) simp_all
    show ?thesis
      using False sign diff cw k
      unfolding differenceInMonths_def firstDayOfMonthBack_def Let_def
      by (simp add: w0_def [symmetric] w_def [symmetric])
  qed
qed

lemma month_div_mod:
  "0 \<le> r \<Longrightarrow> r < 12 \<Longrightarrow> (y * 12 + r) div 12 = y \<and> (y * 12 + r) mod 12 = (r::int)"
  by simp

lemma quarter_bounds:
  "0 \<le> m \<Longrightarrow> m \<le> 11 \<Longrightarrow> 0 \<le> m - m mod 3 \<and> m - m mod 3 + 2 \<le> (11::int)"
  by presburger

lemma startOfQuarter_eq:
  assumes "0 \<le> monthIndex x" and "monthIndex x \<le> 11"
  shows "startOfQuarter x =
     \<lparr>fullYear = fullYear x, monthIndex = monthIndex x - monthIndex x mod 3,
      dayOfMonth = 1, msOfDay = 0\<rparr>"
proof -
  let ?q = "monthIndex x - monthIndex x mod 3"
  have q: "0 \<le> ?q" "?q < 12" using quarter_bounds [OF assms] by linarith+
  have "1 \<le> daysInAbsMonth (fullYear x * 12 + ?q)"
    using daysInAbsMonth_bounds [of "fullYear x * 12 + ?q"] by linarith
  then have "makeDate (fullYear x) ?q 1 0 =
      \<lparr>fullYear = (fullYear x * 12 + ?q) div 12, monthIndex = (fullYear x * 12 + ?q) mod 12,
       dayOfMonth = 1, msOfDay = 0\<rparr>"
    by (intro makeDate_plain) simp_all
  then show ?thesis
    using month_div_mod [OF q, of "fullYear x"] by (simp add: startOfQuarter_def)
qed

lemma endOfQuarter_eq:
  assumes "0 \<le> monthIndex x" and "monthIndex x \<le> 11"
  shows "endOfQuarter x =
     \<lparr>fullYear = fullYear x, monthIndex = monthIndex x - monthIndex x mod 3 + 2,
      dayOfMonth = daysInMonth (fullYear x) (monthIndex x - monthIndex x mod 3 + 2),
      msOfDay = 86399999\<rparr>"
proof -
  let ?q = "monthIndex x - monthIndex x mod 3 + 2"
  have q: "0 \<le> ?q" "?q < 12" using quarter_bounds [OF assms] by linarith+
  have e: "fullYear x * 12 + (monthIndex x - monthIndex x mod 3 + 3) - 1 = fullYear x * 12 + ?q"
    by simp
  show ?thesis
    unfolding endOfQuarter_def makeDate_day0 e daysInAbsMonth_def
    using month_div_mod [OF q, of "fullYear x"] by simp
qed

lemma startOfYear_eq:
  "startOfYear x = \<lparr>fullYear = fullYear x, monthIndex = 0, dayOfMonth = 1, msOfDay = 0\<rparr>"
  using daysInAbsMonth_bounds [of "fullYear x * 12"]
  by (simp add: startOfYear_def makeDate_plain)

lemma endOfYear_eq:
  "endOfYear x = \<lparr>fullYear = fullYear x, monthIndex = 11, dayOfMonth = 31, msOfDay = 86399999\<rparr>"
proof -
  have e: "(fullYear x + 1) * 12 + 0 - 1 = fullYear x * 12 + 11" by simp
  show ?thesis
    unfolding endOfYear_def makeDate_day0 e daysInAbsMonth_def
    using month_div_mod [of 11 "fullYear x"] by (simp add: daysInMonth_def)
qed

section \<open>The duration-class switcher\<close>

text \<open>
  Claim C4. Changing the duration class records the new class and resets the period to the
  trailing window of the class's N months that ends with the current month: from the first
  day of the month N - 1 months before now to the last day of the current month, whatever
  range the state held before. With now = 15 May 2024 the class 6 months gives 1 December
  2023 to 31 May 2024.
\<close>

theorem duration_switch_window:
  assumes "valid_date now" and "d \<in> set durationClasses"
  shows "handlePeriodDurationChange now d s =
           s\<lparr>periodDuration := d,
             periodStart := firstDayOfMonthBack now (spec_classMonths d - 1),
             periodEnd := \<lparr>fullYear = fullYear now, monthIndex = monthIndex now,
                           dayOfMonth = daysInMonth (fullYear now) (monthIndex now),
                           msOfDay = 86399999\<rparr>\<rparr> \<and>
         periodStart (handlePeriodDurationChange now d s) =
           periodStart (handlePeriodDurationChange now d s') \<and>
         periodEnd (handlePeriodDurationChange now d s) =
           periodEnd (handlePeriodDurationChange now d s') \<and>
         (now = \<lparr>fullYear = 2024, monthIndex = 4, dayOfMonth = 15, msOfDay = msOfDay now\<rparr> \<longrightarrow>
            periodStart (handlePeriodDurationChange now ''6 months'' s) =
              \<lparr>fullYear = 2023, monthIndex = 11, dayOfMonth = 1, msOfDay = 0\<rparr> \<and>
            periodEnd (handlePeriodDurationChange now ''6 months'' s) =
              \<lparr>fullYear = 2024, monthIndex = 4, dayOfMonth = 31, msOfDay = 86399999\<rparr>)"
proof -
  have m: "0 \<le> monthIndex now" "monthIndex now \<le> 11" and dd: "1 \<le> dayOfMonth now"
    using assms(1) by (simp_all add: valid_date_def)
  have s0: "startOfMonth now = firstDayOfMonthBack now 0"
    using startOfMonth_subMonths [OF dd, of 0] by (simp add: subMonths_def addMonths_def)
  have shape: "handlePeriodDurationChange now d t =
           t\<lparr>periodDuration := d,
             periodStart := firstDayOfMonthBack now (spec_classMonths d - 1),
             periodEnd := \<lparr>fullYear = fullYear now, monthIndex = monthIndex now,
                           dayOfMonth = daysInMonth (fullYear now) (monthIndex now),
                           msOfDay = 86399999\<rparr>\<rparr>" for t
    using assms(2)
    by (auto simp: durationClasses_def handlePeriodDurationChange_def spec_classMonths_def
        startOfMonth_subMonths [OF dd] s0 endOfMonth_eq [OF m])
  have ex: "now = \<lparr>fullYear = 2024, monthIndex = 4, dayOfMonth = 15, msOfDay = msOfDay now\<rparr> \<Longrightarrow>
      periodStart (handlePeriodDurationChange now ''6 months'' s) =
              \<lparr>fullYear = 2023, monthIndex = 11, dayOfMonth = 1, msOfDay = 0\<rparr> \<and>
      periodEnd (handlePeriodDurationChange now ''6 months'' s) =
              \<lparr>fullYear = 2024, monthIndex = 4, dayOfMonth = 31, msOfDay = 86399999\<rparr>"
  proof -
    assume n: "now = \<lparr>fullYear = 2024, monthIndex = 4, dayOfMonth = 15, msOfDay = msOfDay now\<rparr>"
    have f: "fullYear now = 2024" "monthIndex now = 4"
      by (subst n, simp)+
    show ?thesis
      by (simp add: handlePeriodDurationChange_def startOfMonth_subMonths [OF dd]
          endOfMonth_eq [OF m] firstDayOfMonthBack_def absMonth_def f daysInMonth_def)
  qed
  show ?thesis
    using ex by (simp add: shape)
qed

theorem duration_switch_window_witness:
  "valid_date may15 \<and> ''6 months'' \<in> set durationClasses \<and>
   periodDuration (handlePeriodDurationChange may15 ''6 months'' shortYearState) = ''6 months'' \<and>
   periodStart (handlePeriodDurationChange may15 ''6 months'' shortYearState) =
     \<lparr>fullYear = 2023, monthIndex = 11, dayOfMonth = 1, msOfDay = 0\<rparr> \<and>
   periodEnd (handlePeriodDurationChange may15 ''6 months'' shortYearState) =
     \<lparr>fullYear = 2024, monthIndex = 4, dayOfMonth = 31, msOfDay = 86399999\<rparr>"
proof -
  have v: "valid_date may15" by code_simp
  have c: "''6 months'' \<in> set durationClasses" by (simp add: durationClasses_def)
  have n: "may15 = \<lparr>fullYear = 2024, monthIndex = 4, dayOfMonth = 15, msOfDay = msOfDay may15\<rparr>"
    by (simp add: may15_def)
  have f: "firstDayOfMonthBack may15 (spec_classMonths ''6 months'' - 1) =
      \<lparr>fullYear = 2023, monthIndex = 11, dayOfMonth = 1, msOfDay = 0\<rparr>"
    by code_simp
  have l: "daysInMonth (fullYear may15) (monthIndex may15) = 31"
    by code_simp
  have y: "fullYear may15 = 2024" "monthIndex may15 = 4"
    by (simp_all add: may15_def)
  show ?thesis
    using duration_switch_window [OF v c, of shortYearState shortYearState] v c n f l y
    by simp
qed

text \<open>
  Claim C7. For every duration class and every current moment, the window set by switching to
  the class passes the validator under that class.
\<close>

theorem default_window_valid:
  assumes "valid_date now" and "d \<in> set durationClasses"
  shows "isValid (currentValidation (handlePeriodDurationChange now d s)) \<and>
         isValid (dateRangeValidation (periodStart (handlePeriodDurationChange now d s))
                    (periodEnd (handlePeriodDurationChange now d s)) d)"
proof -
  have m: "0 \<le> monthIndex now" "monthIndex now \<le> 11" and dd: "1 \<le> dayOfMonth now"
    using assms(1) by (simp_all add: valid_date_def)
  have s0: "startOfMonth now = firstDayOfMonthBack now 0"
    using startOfMonth_subMonths [OF dd, of 0] by (simp add: subMonths_def addMonths_def)
  have k: "differenceInMonths (endOfMonth now) (firstDayOfMonthBack now k) = k" if "0 \<le> k" for k
    using assms(1) that by (rule differenceInMonths_default)
  show ?thesis
    using assms(2) k [of 0] k [of 2] k [of 5] k [of 11]
    by (auto simp: durationClasses_def handlePeriodDurationChange_def currentValidation_def
        validation_cases startOfMonth_subMonths [OF dd] s0)
qed

theorem default_window_valid_witness:
  "valid_date may15 \<and> ''1 year'' \<in> set durationClasses \<and>
   isValid (currentValidation (handlePeriodDurationChange may15 ''1 year'' shortYearState))"
proof -
  have v: "valid_date may15" by code_simp
  have c: "''1 year'' \<in> set durationClasses" by (simp add: durationClasses_def)
  show ?thesis
    using default_window_valid [OF v c, of shortYearState] v c by simp
qed

section \<open>The preset rules\<close>

text \<open>
  Claim C3. Every preset label resolves, from the current moment, by its own fixed rule:
  "This month" gives the first through last day of the current month, "This calendar
  quarter" the first through last day of the current quarter, "Calendar year to last month"
  the first day of the current year through the last day of the previous month, "This
  calendar quarter to date" on 15 May 2024 gives 1 April 2024 through that moment; and a label
  with no rule resolves as "This month" does.
\<close>

theorem preset_rules:
  assumes "valid_date now"
  shows "resolvedRange now ''Current and previous 3 months'' s =
           \<lparr>from = firstDayOfMonthBack now 3, to = lastDayOf (fullYear now) (monthIndex now)\<rparr> \<and>
         resolvedRange now ''This month'' s =
           \<lparr>from = firstDayOf (fullYear now) (monthIndex now),
            to = lastDayOf (fullYear now) (monthIndex now)\<rparr> \<and>
         resolvedRange now ''This calendar quarter'' s =
           \<lparr>from = firstDayOf (fullYear now) (monthIndex now - monthIndex now mod 3),
            to = lastDayOf (fullYear now) (monthIndex now - monthIndex now mod 3 + 2)\<rparr> \<and>
         resolvedRange now ''This calendar quarter to date'' s =
           \<lparr>from = firstDayOf (fullYear now) (monthIndex now - monthIndex now mod 3),
            to = now\<rparr> \<and>
         resolvedRange now ''This calendar year'' s =
           \<lparr>from = firstDayOf (fullYear now) 0, to = lastDayOf (fullYear now) 11\<rparr> \<and>
         resolvedRange now ''This calendar year by month'' s =
           \<lparr>from = firstDayOf (fullYear now) 0, to = lastDayOf (fullYear now) 11\<rparr> \<and>
         resolvedRange now ''Calendar year to last month'' s =
           \<lparr>from = firstDayOf (fullYear now) 0, to = lastDayOfMonthBack now 1\<rparr> \<and>
         (fullYear now = 2024 \<and> monthIndex now = 4 \<and> dayOfMonth now = 15 \<longrightarrow>
            resolvedRange now ''This calendar quarter to date'' s =
              \<lparr>from = \<lparr>fullYear = 2024, monthIndex = 3, dayOfMonth = 1, msOfDay = 0\<rparr>,
               to = now\<rparr>) \<and>
         (format \<notin> set resolverCases \<longrightarrow>
            resolvedRange now format s = resolvedRange now ''This month'' s) \<and>
         selectedFormat (handleFormatSelect now format s) = Some format"
proof -
  have m: "0 \<le> monthIndex now" "monthIndex now \<le> 11" and dd: "1 \<le> dayOfMonth now"
    using assms by (simp_all add: valid_date_def)
  note eqs = startOfMonth_eq [OF m] endOfMonth_eq [OF m] startOfQuarter_eq [OF m]
    endOfQuarter_eq [OF m] startOfYear_eq endOfYear_eq startOfMonth_subMonths [OF dd]
    endOfMonth_subMonths [OF dd]
  have r1: "resolvedRange now ''Current and previous 3 months'' s =
           \<lparr>from = firstDayOfMonthBack now 3, to = lastDayOf (fullYear now) (monthIndex now)\<rparr>"
    by (simp add: resolvedRange_def handleFormatSelect_def eqs lastDayOf_def)
  have r2: "resolvedRange now ''This month'' s =
           \<lparr>from = firstDayOf (fullYear now) (monthIndex now),
            to = lastDayOf (fullYear now) (monthIndex now)\<rparr>"
    by (simp add: resolvedRange_def handleFormatSelect_def eqs lastDayOf_def firstDayOf_def)
  have r3: "resolvedRange now ''This calendar quarter'' s =
           \<lparr>from = firstDayOf (fullYear now) (monthIndex now - monthIndex now mod 3),
            to = lastDayOf (fullYear now) (monthIndex now - monthIndex now mod 3 + 2)\<rparr>"
    by (simp add: resolvedRange_def handleFormatSelect_def eqs lastDayOf_def firstDayOf_def)
  have r4: "resolvedRange now ''This calendar quarter to date'' s =
           \<lparr>from = firstDayOf (fullYear now) (monthIndex now - monthIndex now mod 3),
            to = now\<rparr>"
    by (simp add: resolvedRange_def handleFormatSelect_def eqs lastDayOf_def firstDayOf_def)
  have r5: "resolvedRange now ''This calendar year'' s =
           \<lparr>from = firstDayOf (fullYear now) 0, to = lastDayOf (fullYear now) 11\<rparr>"
    by (simp add: resolvedRange_def handleFormatSelect_def eqs lastDayOf_def firstDayOf_def
        daysInMonth_def)
  have r6: "resolvedRange now ''This calendar year by month'' s =
           \<lparr>from = firstDayOf (fullYear now) 0, to = lastDayOf (fullYear now) 11\<rparr>"
    by (simp add: resolvedRange_def handleFormatSelect_def eqs lastDayOf_def firstDayOf_def
        daysInMonth_def)
  have r7: "resolvedRange now ''Calendar year to last month'' s =
           \<lparr>from = firstDayOf (fullYear now) 0, to = lastDayOfMonthBack now 1\<rparr>"
    by (simp add: resolvedRange_def handleFormatSelect_def eqs firstDayOf_def)
  have r8: "fullYear now = 2024 \<and> monthIndex now = 4 \<and> dayOfMonth now = 15 \<longrightarrow>
            resolvedRange now ''This calendar quarter to date'' s =
              \<lparr>from = \<lparr>fullYear = 2024, monthIndex = 3, dayOfMonth = 1, msOfDay = 0\<rparr>,
               to = now\<rparr>"
    by (simp add: r4 firstDayOf_def)
  have r9: "format \<notin> set resolverCases \<longrightarrow>
            resolvedRange now format s = resolvedRange now ''This month'' s"
    by (simp add: resolvedRange_def handleFormatSelect_def resolverCases_def)
  have r10: "selectedFormat (handleFormatSelect now format s) = Some format"
    by (simp add: handleFormatSelect_def split: prod.splits)
  show ?thesis
    using r1 r2 r3 r4 r5 r6 r7 r8 r9 r10 by blast
qed

theorem preset_rules_witness:
  "valid_date may15 \<and> ''Last month'' \<notin> set resolverCases \<and>
   fullYear may15 = 2024 \<and> monthIndex may15 = 4 \<and> dayOfMonth may15 = 15 \<and>
   resolvedRange may15 ''This calendar quarter to date'' (initialState may15) =
     \<lparr>from = \<lparr>fullYear = 2024, monthIndex = 3, dayOfMonth = 1, msOfDay = 0\<rparr>,
      to = \<lparr>fullYear = 2024, monthIndex = 4, dayOfMonth = 15, msOfDay = 34200000\<rparr>\<rparr> \<and>
   resolvedRange may15 ''Last month'' (initialState may15) =
     \<lparr>from = \<lparr>fullYear = 2024, monthIndex = 4, dayOfMonth = 1, msOfDay = 0\<rparr>,
      to = \<lparr>fullYear = 2024, monthIndex = 4, dayOfMonth = 31, msOfDay = 86399999\<rparr>\<rparr>"
proof -
  have v: "valid_date may15" by code_simp
  have n: "''Last month'' \<notin> set resolverCases" by (simp add: resolverCases_def)
  have y: "fullYear may15 = 2024" "monthIndex may15 = 4" "dayOfMonth may15 = 15"
    by (simp_all add: may15_def)
  have d: "may15 = \<lparr>fullYear = 2024, monthIndex = 4, dayOfMonth = 15, msOfDay = 34200000\<rparr>"
    by (simp add: may15_def)
  show ?thesis
    using preset_rules [OF v, of "initialState may15" "''Last month''"] v n y
    by (simp add: d [symmetric] firstDayOf_def lastDayOf_def daysInMonth_def)
qed

section \<open>The custom range\<close>

lemma chosenMonth_shape:
  "chosenMonth month year =
     firstDayOf (fullYear (chosenMonth month year)) (monthIndex (chosenMonth month year)) \<and>
   0 \<le> monthIndex (chosenMonth month year) \<and> monthIndex (chosenMonth month year) \<le> 11"
proof -
  define a where "a = (if 0 \<le> year \<and> year \<le> 99 then 1900 + year else year) * 12 + month"
  have "1 \<le> daysInAbsMonth a" using daysInAbsMonth_bounds [of a] by linarith
  then have "rollDays a 1 = (a, 1)" by (simp add: rollDays_id)
  then show ?thesis
    unfolding chosenMonth_def newDate_def makeDate_def a_def [symmetric]
    by (simp add: firstDayOf_def)
qed

lemma chosenMonth_plain:
  assumes "0 \<le> month" and "month \<le> 11" and "\<not> (0 \<le> year \<and> year \<le> 99)"
  shows "chosenMonth month year = firstDayOf year month"
proof -
  have "1 \<le> daysInAbsMonth (year * 12 + month)"
    using daysInAbsMonth_bounds [of "year * 12 + month"] by linarith
  then have "makeDate year month 1 0 =
      \<lparr>fullYear = (year * 12 + month) div 12, monthIndex = (year * 12 + month) mod 12,
       dayOfMonth = 1, msOfDay = 0\<rparr>"
    by (intro makeDate_plain) simp_all
  moreover have "month < 12" using assms(2) by simp
  moreover have "(if 0 \<le> year \<and> year \<le> 99 then 1900 + year else year) = year"
    using assms(3) by simp
  ultimately show ?thesis
    using assms(1) month_div_mod [of month year]
    unfolding chosenMonth_def newDate_def firstDayOf_def
    by simp
qed

lemma startOfMonth_firstDayOf:
  "0 \<le> m \<Longrightarrow> m \<le> 11 \<Longrightarrow> startOfMonth (firstDayOf y m) = firstDayOf y m"
  by (simp add: startOfMonth_eq firstDayOf_def)

lemma endOfMonth_firstDayOf:
  "0 \<le> m \<Longrightarrow> m \<le> 11 \<Longrightarrow> endOfMonth (firstDayOf y m) = lastDayOf y m"
  by (simp add: endOfMonth_eq firstDayOf_def lastDayOf_def)

lemma startOfMonth_lastDayOf:
  "0 \<le> m \<Longrightarrow> m \<le> 11 \<Longrightarrow> startOfMonth (lastDayOf y m) = firstDayOf y m"
  by (simp add: startOfMonth_eq firstDayOf_def lastDayOf_def)

lemma monthBefore_first: "monthBefore x (firstDayOf y m) \<Longrightarrow> date_less x (firstDayOf y m)"
  by (auto simp: monthBefore_def date_less_def firstDayOf_def)

lemma monthBefore_last: "monthBefore (firstDayOf y m) x \<Longrightarrow> date_less (lastDayOf y m) x"
  by (auto simp: monthBefore_def date_less_def firstDayOf_def lastDayOf_def)

lemma select_start:
  assumes "0 \<le> m" and "m \<le> 11" and "chosenMonth month year = firstDayOf y m"
  shows "handleMonthYearSelect month year True s =
     (if date_less (periodEnd s) (firstDayOf y m)
      then s\<lparr>periodStart := firstDayOf y m, periodEnd := lastDayOf y m, endYear := year\<rparr>
      else s\<lparr>periodStart := firstDayOf y m\<rparr>)"
  using assms(3) [unfolded chosenMonth_def]
  by (simp add: handleMonthYearSelect_def Let_def startOfMonth_firstDayOf [OF assms(1,2)]
      endOfMonth_firstDayOf [OF assms(1,2)])

lemma select_end:
  assumes "0 \<le> m" and "m \<le> 11" and "chosenMonth month year = firstDayOf y m"
  shows "handleMonthYearSelect month year False s =
     (if date_less (lastDayOf y m) (periodStart s)
      then s\<lparr>periodEnd := lastDayOf y m, periodStart := firstDayOf y m, startYear := year\<rparr>
      else s\<lparr>periodEnd := lastDayOf y m\<rparr>)"
  using assms(3) [unfolded chosenMonth_def]
  by (simp add: handleMonthYearSelect_def Let_def startOfMonth_lastDayOf [OF assms(1,2)]
      endOfMonth_firstDayOf [OF assms(1,2)])

text \<open>
  Claim C2. Picking a month and year for the start sets the start to the first day of that
  month, picking one for the end sets the end to its last day. A start month strictly after
  the month of the current end moves the end to the last day of the picked month, and an end
  month strictly before the month of the current start moves the start to the first day of
  the picked month; the edited boundary stays at the picked month, and without a clamp the
  other boundary is not touched. The picked month is the one the \<open>Date\<close> constructor builds:
  the picked year and month themselves whenever the year is not between 0 and 99.
\<close>

theorem clamp_asymmetric:
  "periodStart (handleMonthYearSelect month year True s) = chosenMonth month year \<and>
   (monthBefore (periodEnd s) (chosenMonth month year) \<longrightarrow>
      periodEnd (handleMonthYearSelect month year True s) = chosenMonthEnd month year) \<and>
   (\<not> date_less (periodEnd s) (chosenMonth month year) \<longrightarrow>
      periodEnd (handleMonthYearSelect month year True s) = periodEnd s) \<and>
   periodEnd (handleMonthYearSelect month year False s) = chosenMonthEnd month year \<and>
   (monthBefore (chosenMonth month year) (periodStart s) \<longrightarrow>
      periodStart (handleMonthYearSelect month year False s) = chosenMonth month year) \<and>
   (\<not> date_less (chosenMonthEnd month year) (periodStart s) \<longrightarrow>
      periodStart (handleMonthYearSelect month year False s) = periodStart s) \<and>
   chosenMonth month year =
     firstDayOf (fullYear (chosenMonth month year)) (monthIndex (chosenMonth month year)) \<and>
   (0 \<le> month \<and> month \<le> 11 \<and> \<not> (0 \<le> year \<and> year \<le> 99) \<longrightarrow>
      chosenMonth month year = firstDayOf year month \<and>
      chosenMonthEnd month year = lastDayOf year month)"
proof -
  define cy where "cy = fullYear (chosenMonth month year)"
  define cm where "cm = monthIndex (chosenMonth month year)"
  have c: "chosenMonth month year = firstDayOf cy cm" and m: "0 \<le> cm" "cm \<le> 11"
    using chosenMonth_shape [of month year] by (simp_all add: cy_def cm_def)
  have e: "chosenMonthEnd month year = lastDayOf cy cm"
    by (simp add: chosenMonthEnd_def cy_def cm_def)
  note st = select_start [OF m c, of s] and en = select_end [OF m c, of s]
  have p1: "periodStart (handleMonthYearSelect month year True s) = chosenMonth month year"
    by (simp add: st c)
  have p2: "monthBefore (periodEnd s) (chosenMonth month year) \<longrightarrow>
            periodEnd (handleMonthYearSelect month year True s) = chosenMonthEnd month year"
    using monthBefore_first [of "periodEnd s" cy cm] by (auto simp: st c e)
  have p3: "\<not> date_less (periodEnd s) (chosenMonth month year) \<longrightarrow>
            periodEnd (handleMonthYearSelect month year True s) = periodEnd s"
    by (simp add: st c)
  have p4: "periodEnd (handleMonthYearSelect month year False s) = chosenMonthEnd month year"
    by (simp add: en e)
  have p5: "monthBefore (chosenMonth month year) (periodStart s) \<longrightarrow>
            periodStart (handleMonthYearSelect month year False s) = chosenMonth month year"
    using monthBefore_last [of cy cm "periodStart s"] by (auto simp: en c)
  have p6: "\<not> date_less (chosenMonthEnd month year) (periodStart s) \<longrightarrow>
            periodStart (handleMonthYearSelect month year False s) = periodStart s"
    by (simp add: en e)
  have p7: "chosenMonth month year =
     firstDayOf (fullYear (chosenMonth month year)) (monthIndex (chosenMonth month year))"
    using chosenMonth_shape [of month year] by simp
  have p8: "0 \<le> month \<and> month \<le> 11 \<and> \<not> (0 \<le> year \<and> year \<le> 99) \<longrightarrow>
      chosenMonth month year = firstDayOf year month \<and>
      chosenMonthEnd month year = lastDayOf year month"
    using chosenMonth_plain [of month year]
    by (auto simp: chosenMonthEnd_def firstDayOf_def)
  show ?thesis
    using p1 p2 p3 p4 p5 p6 p7 p8 by blast
qed

theorem clamp_asymmetric_witness:
  "monthBefore (periodEnd (initialState may15)) (chosenMonth 7 2025) \<and>
   monthBefore (chosenMonth 1 2023) (periodStart (initialState may15)) \<and>
   \<not> date_less (periodEnd (initialState may15)) (chosenMonth 2 2024) \<and>
   \<not> date_less (chosenMonthEnd 6 2024) (periodStart (initialState may15)) \<and>
   periodStart (handleMonthYearSelect 7 2025 True (initialState may15)) =
     \<lparr>fullYear = 2025, monthIndex = 7, dayOfMonth = 1, msOfDay = 0\<rparr> \<and>
   periodEnd (handleMonthYearSelect 7 2025 True (initialState may15)) =
     \<lparr>fullYear = 2025, monthIndex = 7, dayOfMonth = 31, msOfDay = 86399999\<rparr> \<and>
   periodEnd (handleMonthYearSelect 1 2023 False (initialState may15)) =
     \<lparr>fullYear = 2023, monthIndex = 1, dayOfMonth = 28, msOfDay = 86399999\<rparr> \<and>
   periodStart (handleMonthYearSelect 1 2023 False (initialState may15)) =
     \<lparr>fullYear = 2023, monthIndex = 1, dayOfMonth = 1, msOfDay = 0\<rparr> \<and>
   periodEnd (handleMonthYearSelect 2 2024 True (initialState may15)) =
     \<lparr>fullYear = 2024, monthIndex = 4, dayOfMonth = 31, msOfDay = 86399999\<rparr> \<and>
   periodStart (handleMonthYearSelect 6 2024 False (initialState may15)) =
     \<lparr>fullYear = 2024, monthIndex = 4, dayOfMonth = 1, msOfDay = 0\<rparr>"
proof -
  have ps: "periodStart (initialState may15) =
      \<lparr>fullYear = 2024, monthIndex = 4, dayOfMonth = 1, msOfDay = 0\<rparr>"
    by code_simp
  have pe: "periodEnd (initialState may15) =
      \<lparr>fullYear = 2024, monthIndex = 4, dayOfMonth = 31, msOfDay = 86399999\<rparr>"
    by code_simp
  have h1: "monthBefore (periodEnd (initialState may15)) (chosenMonth 7 2025)" by code_simp
  have h2: "monthBefore (chosenMonth 1 2023) (periodStart (initialState may15))" by code_simp
  have h3: "\<not> date_less (periodEnd (initialState may15)) (chosenMonth 2 2024)" by code_simp
  have h4: "\<not> date_less (chosenMonthEnd 6 2024) (periodStart (initialState may15))"
    by code_simp
  have c1: "chosenMonth 7 2025 = \<lparr>fullYear = 2025, monthIndex = 7, dayOfMonth = 1, msOfDay = 0\<rparr>"
    by code_simp
  have c2: "chosenMonthEnd 7 2025 =
      \<lparr>fullYear = 2025, monthIndex = 7, dayOfMonth = 31, msOfDay = 86399999\<rparr>"
    by code_simp
  have c3: "chosenMonth 1 2023 = \<lparr>fullYear = 2023, monthIndex = 1, dayOfMonth = 1, msOfDay = 0\<rparr>"
    by code_simp
  have c4: "chosenMonthEnd 1 2023 =
      \<lparr>fullYear = 2023, monthIndex = 1, dayOfMonth = 28, msOfDay = 86399999\<rparr>"
    by code_simp
  have a: "periodStart (handleMonthYearSelect 7 2025 True (initialState may15)) =
     \<lparr>fullYear = 2025, monthIndex = 7, dayOfMonth = 1, msOfDay = 0\<rparr> \<and>
   periodEnd (handleMonthYearSelect 7 2025 True (initialState may15)) =
     \<lparr>fullYear = 2025, monthIndex = 7, dayOfMonth = 31, msOfDay = 86399999\<rparr>"
    using clamp_asymmetric [of 7 2025 "initialState may15"] h1 c1 c2 by simp
  have b: "periodEnd (handleMonthYearSelect 1 2023 False (initialState may15)) =
     \<lparr>fullYear = 2023, monthIndex = 1, dayOfMonth = 28, msOfDay = 86399999\<rparr> \<and>
   periodStart (handleMonthYearSelect 1 2023 False (initialState may15)) =
     \<lparr>fullYear = 2023, monthIndex = 1, dayOfMonth = 1, msOfDay = 0\<rparr>"
    using clamp_asymmetric [of 1 2023 "initialState may15"] h2 c3 c4 by simp
  have c: "periodEnd (handleMonthYearSelect 2 2024 True (initialState may15)) =
     \<lparr>fullYear = 2024, monthIndex = 4, dayOfMonth = 31, msOfDay = 86399999\<rparr>"
    using clamp_asymmetric [of 2 2024 "initialState may15"] h3 pe by simp
  have d: "periodStart (handleMonthYearSelect 6 2024 False (initialState may15)) =
     \<lparr>fullYear = 2024, monthIndex = 4, dayOfMonth = 1, msOfDay = 0\<rparr>"
    using clamp_asymmetric [of 6 2024 "initialState may15"] h4 ps by simp
  show ?thesis
    using a b c d h1 h2 h3 h4 by blast
qed

section \<open>Ordering of the period\<close>

lemma date_le_lex:
  "fullYear x < fullYear y \<or> (fullYear x = fullYear y \<and>
     (monthIndex x < monthIndex y \<or> (monthIndex x = monthIndex y \<and>
       (dayOfMonth x < dayOfMonth y \<or> (dayOfMonth x = dayOfMonth y \<and>
         msOfDay x \<le> msOfDay y))))) \<Longrightarrow> date_le x y"
  by (auto simp: date_le_def date_less_def)

lemma first_le_last: "m \<le> m' \<Longrightarrow> date_le (firstDayOf y m) (lastDayOf y m')"
  using daysInMonth_bounds [of y m']
  by (intro date_le_lex) (auto simp: firstDayOf_def lastDayOf_def)

lemma back_le_last:
  assumes "valid_date now" and "0 \<le> k"
  shows "date_le (firstDayOfMonthBack now k) (lastDayOf (fullYear now) (monthIndex now))"
proof -
  let ?w = "lastDayOf (fullYear now) (monthIndex now)"
  have "28 \<le> dayOfMonth ?w"
    using daysInMonth_bounds [of "fullYear now" "monthIndex now"] by (simp add: lastDayOf_def)
  then have "compareAsc ?w (firstDayOfMonthBack now k) = 1"
    unfolding firstDayOfMonthBack_def
    using assms by (intro after_first_day) (simp_all add: lastDayOf_def absMonth_def valid_date_def)
  then show ?thesis
    by (auto simp: compareAsc_def date_le_def date_less_def split: if_splits)
qed

lemma month_select_ordered:
  "date_le (periodStart (handleMonthYearSelect month year isStart s))
           (periodEnd (handleMonthYearSelect month year isStart s))"
proof -
  define cy where "cy = fullYear (chosenMonth month year)"
  define cm where "cm = monthIndex (chosenMonth month year)"
  have c: "chosenMonth month year = firstDayOf cy cm" and m: "0 \<le> cm" "cm \<le> 11"
    using chosenMonth_shape [of month year] by (simp_all add: cy_def cm_def)
  show ?thesis
  proof (cases isStart)
    case True
    then show ?thesis
      using first_le_last [of cm cm cy]
      by (simp add: select_start [OF m c] date_le_def)
  next
    case False
    then show ?thesis
      using first_le_last [of cm cm cy]
      by (simp add: select_end [OF m c] date_le_def)
  qed
qed

lemma duration_change_ordered:
  assumes "valid_date now"
  shows "date_le (periodStart (handlePeriodDurationChange now d s))
                 (periodEnd (handlePeriodDurationChange now d s))"
proof -
  have m: "0 \<le> monthIndex now" "monthIndex now \<le> 11" and dd: "1 \<le> dayOfMonth now"
    using assms by (simp_all add: valid_date_def)
  have s0: "startOfMonth now = firstDayOfMonthBack now 0"
    using startOfMonth_subMonths [OF dd, of 0] by (simp add: subMonths_def addMonths_def)
  have e: "endOfMonth now = lastDayOf (fullYear now) (monthIndex now)"
    by (simp add: endOfMonth_eq [OF m] lastDayOf_def)
  show ?thesis
    using back_le_last [OF assms, of 0] back_le_last [OF assms, of 2]
      back_le_last [OF assms, of 5] back_le_last [OF assms, of 11]
    by (simp add: handlePeriodDurationChange_def startOfMonth_subMonths [OF dd] s0 e)
qed

lemma preset_ordered:
  assumes "valid_date now" and "format \<noteq> ''Calendar year to last month'' \<or> 0 < monthIndex now"
  shows "date_le (periodStart (handleFormatSelect now format s))
                 (periodEnd (handleFormatSelect now format s))"
proof -
  have m: "0 \<le> monthIndex now" "monthIndex now \<le> 11" and dd: "1 \<le> dayOfMonth now"
    and t: "0 \<le> msOfDay now"
    using assms(1) by (simp_all add: valid_date_def)
  have s0: "startOfMonth now = firstDayOfMonthBack now 0"
    using startOfMonth_subMonths [OF dd, of 0] by (simp add: subMonths_def addMonths_def)
  have e: "endOfMonth now = lastDayOf (fullYear now) (monthIndex now)"
    by (simp add: endOfMonth_eq [OF m] lastDayOf_def)
  have q: "startOfQuarter now = firstDayOf (fullYear now) (monthIndex now - monthIndex now mod 3)"
    "endOfQuarter now = lastDayOf (fullYear now) (monthIndex now - monthIndex now mod 3 + 2)"
    by (simp_all add: startOfQuarter_eq [OF m] endOfQuarter_eq [OF m] firstDayOf_def lastDayOf_def)
  have y: "startOfYear now = firstDayOf (fullYear now) 0"
    "endOfYear now = lastDayOf (fullYear now) 11"
    by (simp_all add: startOfYear_eq endOfYear_eq firstDayOf_def lastDayOf_def daysInMonth_def)
  have qd: "date_le (firstDayOf (fullYear now) (monthIndex now - monthIndex now mod 3)) now"
  proof -
    have "monthIndex now - monthIndex now mod 3 \<le> monthIndex now"
      using m by presburger
    then show ?thesis
      using dd t by (intro date_le_lex) (auto simp: firstDayOf_def)
  qed
  have lm: "date_le (firstDayOf (fullYear now) 0) (lastDayOfMonthBack now 1)" if "0 < monthIndex now"
  proof -
    have a: "absMonth now - 1 = fullYear now * 12 + (monthIndex now - 1)"
      by (simp add: absMonth_def)
    have "0 \<le> monthIndex now - 1" "monthIndex now - 1 < 12"
      using that m by simp_all
    then have "(absMonth now - 1) div 12 = fullYear now \<and>
        (absMonth now - 1) mod 12 = monthIndex now - 1"
      unfolding a by (rule month_div_mod)
    then show ?thesis
      using that daysInAbsMonth_bounds [of "absMonth now - 1"]
      by (intro date_le_lex) (auto simp: firstDayOf_def lastDayOfMonthBack_def)
  qed
  show ?thesis
    using assms(2) back_le_last [OF assms(1), of 0] back_le_last [OF assms(1), of 3]
      first_le_last [of "monthIndex now - monthIndex now mod 3"
        "monthIndex now - monthIndex now mod 3 + 2" "fullYear now"]
      first_le_last [of 0 11 "fullYear now"] qd lm
    by (auto simp: handleFormatSelect_def startOfMonth_subMonths [OF dd]
        endOfMonth_subMonths [OF dd] s0 e q y)
qed

text \<open>
  Claim C8. Every operation that changes the range keeps the period start at or before the
  period end, for every current moment. The custom-range clamp, the duration switch and the
  presets do (the three lemmas above), with one exception: in January the preset "Calendar
  year to last month" sets a start after its end. On 15 January 2024 it leaves 1 January 2024
  as the start and 31 December 2023 as the end.
\<close>

theorem preset_inverts_in_january:
  "valid_date jan15 \<and>
   date_le (periodStart (initialState jan15)) (periodEnd (initialState jan15)) \<and>
   periodStart (handleFormatSelect jan15 ''Calendar year to last month'' (initialState jan15)) =
     \<lparr>fullYear = 2024, monthIndex = 0, dayOfMonth = 1, msOfDay = 0\<rparr> \<and>
   periodEnd (handleFormatSelect jan15 ''Calendar year to last month'' (initialState jan15)) =
     \<lparr>fullYear = 2023, monthIndex = 11, dayOfMonth = 31, msOfDay = 86399999\<rparr> \<and>
   \<not> date_le
       (periodStart (handleFormatSelect jan15 ''Calendar year to last month'' (initialState jan15)))
       (periodEnd (handleFormatSelect jan15 ''Calendar year to last month'' (initialState jan15)))"
  by code_simp

end
